theory Spec2Isabelle
  imports Main
begin

section \<open>Python values and exceptions\<close>

text \<open>
  The exceptions the two modules can raise. \<open>StreamlitAPIException\<close> is the one they
  raise themselves; \<open>ValueError\<close> comes from \<open>list.index\<close>, \<open>IndexError\<close> from list
  subscription, \<open>UnboundLocalError\<close> from reading a local that no branch has bound,
  \<open>RuntimeError\<close> from \<open>marshall_file\<close>.
\<close>

datatype error =
  StreamlitAPIException | ValueError | IndexError | UnboundLocalError | RuntimeError

text \<open>
  \<open>xs[i]\<close> on a Python list: a negative index counts from the end, anything outside
  \<open>-len(xs) .. len(xs) - 1\<close> raises \<open>IndexError\<close>.
\<close>

definition py_getitem :: "'a list \<Rightarrow> int \<Rightarrow> error + 'a" where
  "py_getitem xs i =
     (if 0 \<le> i \<and> i < int (length xs) then Inr (xs ! nat i)
      else if i < 0 \<and> - int (length xs) \<le> i then Inr (xs ! nat (int (length xs) + i))
      else Inl IndexError)"

text \<open>\<open>xs.index(v)\<close>: the position of the first element equal to \<open>v\<close>, or \<open>ValueError\<close>.\<close>

fun py_index :: "'a list \<Rightarrow> 'a \<Rightarrow> error + int" where
  "py_index [] v = Inl ValueError"
| "py_index (x # xs) v =
     (if x = v then Inr 0
      else case py_index xs v of Inl e \<Rightarrow> Inl e | Inr i \<Rightarrow> Inr (i + 1))"

text \<open>
  A list comprehension \<open>[f(x) for x in xs]\<close> whose body may raise: elements are
  computed left to right and the first exception leaves the comprehension.
\<close>

fun comprehension :: "('a \<Rightarrow> error + 'b) \<Rightarrow> 'a list \<Rightarrow> error + 'b list" where
  "comprehension f [] = Inr []"
| "comprehension f (x # xs) =
     (case f x of
        Inl e \<Rightarrow> Inl e
      | Inr y \<Rightarrow> (case comprehension f xs of Inl e \<Rightarrow> Inl e | Inr ys \<Rightarrow> Inr (y # ys)))"

section \<open>The serde classes of \<open>button.py\<close>\<close>

subsection \<open>\<open>ButtonSerde\<close>\<close>

text \<open>\<open>serialize\<close> is \<open>bool(v)\<close>; \<open>deserialize\<close> is \<open>ui_value or False\<close> on \<open>bool | None\<close>.\<close>

definition ButtonSerde_serialize :: "bool \<Rightarrow> bool" where
  "ButtonSerde_serialize v = v"

definition ButtonSerde_deserialize :: "bool option \<Rightarrow> bool" where
  "ButtonSerde_deserialize ui_value =
     (case ui_value of None \<Rightarrow> False | Some b \<Rightarrow> (if b then b else False))"

subsection \<open>\<open>ButtonGroupOptionsSerde\<close>\<close>

record ButtonGroupOptionsSerde =
  options :: "string list"
  default_value :: "int list"

definition ButtonGroupOptionsSerde_serialize ::
  "ButtonGroupOptionsSerde \<Rightarrow> string list option \<Rightarrow> error + int list" where
  "ButtonGroupOptionsSerde_serialize self v =
     (case v of
        None \<Rightarrow> Inr []
      | Some vals \<Rightarrow> comprehension (\<lambda>val. py_index (options self) val) vals)"

definition ButtonGroupOptionsSerde_deserialize ::
  "ButtonGroupOptionsSerde \<Rightarrow> int list option \<Rightarrow> error + string list" where
  "ButtonGroupOptionsSerde_deserialize self ui_value =
     (let current_value = (case ui_value of Some u \<Rightarrow> u | None \<Rightarrow> default_value self)
      in comprehension (\<lambda>val. py_getitem (options self) val) current_value)"

subsection \<open>\<open>ButtonGroupFeedbackSerde\<close>\<close>

record ButtonGroupFeedbackSerde =
  index_to_score_mapping :: "int list option"

definition ButtonGroupFeedbackSerde_serialize ::
  "ButtonGroupFeedbackSerde \<Rightarrow> int option \<Rightarrow> int list" where
  "ButtonGroupFeedbackSerde_serialize self v = (case v of None \<Rightarrow> [] | Some x \<Rightarrow> [x])"

definition ButtonGroupFeedbackSerde_deserialize ::
  "ButtonGroupFeedbackSerde \<Rightarrow> int list option \<Rightarrow> error + int option" where
  "ButtonGroupFeedbackSerde_deserialize self ui_value =
     (case ui_value of
        None \<Rightarrow> Inr None
      | Some u \<Rightarrow>
          (case index_to_score_mapping self of
             None \<Rightarrow> map_sum id Some (py_getitem u 0)
           | Some m \<Rightarrow>
               (case py_getitem u 0 of
                  Inl e \<Rightarrow> Inl e
                | Inr i \<Rightarrow> map_sum id Some (py_getitem m i))))"

text \<open>
  The serde that \<open>feedback\<close> hands to \<open>_button_group\<close>: the score table is \<open>[1, 0]\<close> for
  \<open>"thumbs"\<close>, absent for \<open>"smiles"\<close>, and any other \<open>options\<close> raises.
\<close>

definition feedback_serde :: "string \<Rightarrow> error + ButtonGroupFeedbackSerde" where
  "feedback_serde opts =
     (if opts = ''thumbs'' then Inr \<lparr>index_to_score_mapping = Some [1, 0]\<rparr>
      else if opts = ''smiles'' then Inr \<lparr>index_to_score_mapping = None\<rparr>
      else Inl StreamlitAPIException)"

text \<open>The option names \<open>feedback\<close> passes on (\<open>actual_options\<close>).\<close>

definition feedback_actual_options :: "string \<Rightarrow> string list" where
  "feedback_actual_options opts =
     (if opts = ''thumbs'' then [''thumbs_up'', ''thumbs_down'']
      else [''sad'', ''disappointed'', ''neutral'', ''happy'', ''very_happy''])"

section \<open>Pages, the script-run context and the mutable world\<close>

text \<open>
  Class \<open>StreamlitPage\<close> is imported from \<open>streamlit.navigation.page\<close>; the two modules
  only read and write its attributes, so a page is the record of the attributes they
  touch. \<open>_page\<close> is a \<open>Path\<close> or a callable; \<open>_script_hash\<close> is the key under which
  \<open>navigation\<close> registers a page.
\<close>

datatype page_source = PagePath string | PageCallable

record StreamlitPage =
  sp_page :: page_source
  sp_title :: string
  sp_icon :: string
  sp_default :: bool
  sp_script_hash :: string
  sp_url_path :: string
  sp_can_be_called :: bool

text \<open>
  Page objects are shared between the caller's collection, \<open>navigation\<close>'s locals and its
  return value, and \<open>navigation\<close> assigns to their attributes. They therefore live in a
  store and are passed around as references.
\<close>

type_synonym ref = nat

text \<open>The \<open>PageInfo\<close> dictionaries handed to the pages manager.\<close>

record PageInfo =
  pi_page_script_hash :: string
  pi_page_name :: string
  pi_icon :: string
  pi_script_path :: string
  pi_url_pathname :: string

text \<open>The \<open>Navigation\<close> protobuf message and the two \<open>ForwardMsg\<close> kinds that are sent.\<close>

datatype Position = HIDDEN | SIDEBAR

record AppPage =
  ap_page_script_hash :: string
  ap_page_name :: string
  ap_icon :: string
  ap_is_default :: bool
  ap_section_header :: string
  ap_url_pathname :: string

record NavigationProto =
  nav_position :: Position
  nav_sections :: "string list"
  nav_app_pages :: "AppPage list"
  nav_page_script_hash :: string

datatype ForwardMsg = PageNotFound string | Navigation NavigationProto

text \<open>
  What the modules use of a \<open>ScriptRunContext\<close>: two attributes, the page table of its
  pages manager (\<open>set_pages\<close>, \<open>get_pages\<close>; a dict, kept as its items in insertion
  order) and the messages passed to \<open>ctx.enqueue\<close>, oldest first.
\<close>

record ScriptRunContext =
  main_script_path :: string
  active_script_hash :: string
  pm_pages :: "(string \<times> PageInfo) list"
  forward_msgs :: "ForwardMsg list"

section \<open>Protobuf messages of the button elements\<close>

text \<open>
  The fields the module assigns, with the protobuf defaults (empty string, false) for
  the ones it leaves alone.
\<close>

record ButtonProto =
  b_id :: string
  b_label :: string
  b_default :: bool
  b_is_form_submitter :: bool
  b_form_id :: string
  b_type :: string
  b_use_container_width :: bool
  b_disabled :: bool
  b_help :: string

record DownloadButtonProto =
  db_id :: string
  db_use_container_width :: bool
  db_label :: string
  db_default :: bool
  db_type :: string
  db_url :: string
  db_disabled :: bool
  db_help :: string

record LinkButtonProto =
  lb_label :: string
  lb_url :: string
  lb_type :: string
  lb_use_container_width :: bool
  lb_disabled :: bool
  lb_help :: string

record PageLinkProto =
  pl_disabled :: bool
  pl_label :: string
  pl_icon :: string
  pl_help :: string
  pl_use_container_width :: bool
  pl_page_script_hash :: string
  pl_page :: string
  pl_external :: bool

datatype element =
  Button ButtonProto
| DownloadButton DownloadButtonProto
| LinkButton LinkButtonProto
| PageLink PageLinkProto

text \<open>A file passed to \<open>media_file_mgr.add\<close>: bytes, MIME type, coordinates, file name.\<close>

type_synonym media_file = "string \<times> string \<times> string \<times> string option"

text \<open>
  The state the commands act on:
  \<^item> \<open>ctx\<close>: what \<open>get_script_run_ctx()\<close> returns (\<open>None\<close> when the script runs without a
    Streamlit runtime);
  \<^item> \<open>page_objects\<close>: the store of page objects;
  \<^item> \<open>registered\<close>: the widgets passed to \<open>register_widget\<close>, oldest first;
  \<^item> \<open>enqueued\<close>: the elements passed to \<open>self.dg._enqueue\<close>, oldest first;
  \<^item> \<open>app_testing\<close>: the values passed to \<open>save_for_app_testing\<close>;
  \<^item> \<open>media_files\<close>: the files passed to \<open>media_file_mgr.add\<close>.
\<close>

record world =
  ctx :: "ScriptRunContext option"
  page_objects :: "ref \<Rightarrow> StreamlitPage"
  registered :: "(string \<times> element) list"
  enqueued :: "(string \<times> element) list"
  app_testing :: "(string \<times> bool) list"
  media_files :: "media_file list"

section \<open>\<open>navigation.py\<close>\<close>

text \<open>
  The \<open>pages\<close> argument: a list of pages, or a dict from section headers to lists of
  pages. A dict is given by its items in insertion order (each key once).
\<close>

datatype nav_pages = PageList "ref list" | PageDict "(string \<times> ref list) list"

text \<open>\<open>nav_sections = {"": pages} if isinstance(pages, list) else pages\<close>\<close>

fun nav_sections_of :: "nav_pages \<Rightarrow> (string \<times> ref list) list" where
  "nav_sections_of (PageList ps) = [('''', ps)]"
| "nav_sections_of (PageDict d) = d"

fun pages_from_nav_sections :: "(string \<times> ref list) list \<Rightarrow> ref list" where
  "pages_from_nav_sections [] = []"
| "pages_from_nav_sections ((header, section_pages) # rest) =
     section_pages @ pages_from_nav_sections rest"

text \<open>\<open>ctx.enqueue(msg)\<close> appends a message to the context's queue.\<close>

definition enqueue :: "ForwardMsg \<Rightarrow> ScriptRunContext \<Rightarrow> ScriptRunContext" where
  "enqueue msg c = c\<lparr>forward_msgs := forward_msgs c @ [msg]\<rparr>"

text \<open>\<open>send_page_not_found\<close>: enqueue a \<open>page_not_found\<close> message with an empty name.\<close>

definition send_page_not_found :: "ScriptRunContext \<Rightarrow> ScriptRunContext" where
  "send_page_not_found c = enqueue (PageNotFound '''') c"

text \<open>\<open>s.replace(old, new)\<close> for one-character \<open>old\<close> and \<open>new\<close>.\<close>

definition replace_char :: "char \<Rightarrow> char \<Rightarrow> string \<Rightarrow> string" where
  "replace_char old new s = map (\<lambda>c. if c = old then new else c) s"

text \<open>The \<open>PageInfo\<close> entry that the loop stores for a page.\<close>

definition page_info :: "(ref \<Rightarrow> StreamlitPage) \<Rightarrow> ref \<Rightarrow> PageInfo" where
  "page_info heap page =
     \<lparr>pi_page_script_hash = sp_script_hash (heap page),
      pi_page_name = sp_title (heap page),
      pi_icon = sp_icon (heap page),
      pi_script_path = (case sp_page (heap page) of PagePath p \<Rightarrow> p | PageCallable \<Rightarrow> ''''),
      pi_url_pathname = replace_char CHR '' '' CHR ''_'' (sp_title (heap page))\<rparr>"

text \<open>
  The body of the nested loop that finds the default page and fills
  \<open>pagehash_to_pageinfo\<close>, for one page. The loop state is \<open>default_page\<close> and the dict
  (its items in insertion order); either \<open>raise\<close> ends the loop. The key is new
  whenever the assignment is reached, so the entry goes to the end.
\<close>

definition visit_page ::
  "(ref \<Rightarrow> StreamlitPage) \<Rightarrow> ref \<Rightarrow> ref option \<times> (string \<times> PageInfo) list
   \<Rightarrow> error + ref option \<times> (string \<times> PageInfo) list" where
  "visit_page heap page st =
     (case st of (default_page, pagehash_to_pageinfo) \<Rightarrow>
        if sp_default (heap page) \<and> default_page \<noteq> None then Inl StreamlitAPIException
        else
          let default_page' = (if sp_default (heap page) then Some page else default_page);
              script_hash = sp_script_hash (heap page)
          in if script_hash \<in> set (map fst pagehash_to_pageinfo) then Inl StreamlitAPIException
             else Inr (default_page',
                       pagehash_to_pageinfo @ [(script_hash, page_info heap page)]))"

text \<open>The inner loop, over the pages of one section, and the outer loop, over the sections.\<close>

fun visit_pages ::
  "(ref \<Rightarrow> StreamlitPage) \<Rightarrow> ref list \<Rightarrow> ref option \<times> (string \<times> PageInfo) list
   \<Rightarrow> error + ref option \<times> (string \<times> PageInfo) list" where
  "visit_pages heap [] st = Inr st"
| "visit_pages heap (page # rest) st =
     (case visit_page heap page st of Inl e \<Rightarrow> Inl e | Inr st' \<Rightarrow> visit_pages heap rest st')"

fun visit_sections ::
  "(ref \<Rightarrow> StreamlitPage) \<Rightarrow> (string \<times> ref list) list
   \<Rightarrow> ref option \<times> (string \<times> PageInfo) list
   \<Rightarrow> error + ref option \<times> (string \<times> PageInfo) list" where
  "visit_sections heap [] st = Inr st"
| "visit_sections heap ((section_header, section_pages) # rest) st =
     (case visit_pages heap section_pages st of
        Inl e \<Rightarrow> Inl e
      | Inr st' \<Rightarrow> visit_sections heap rest st')"

text \<open>The \<open>app_pages\<close> of the message: one entry per page, section by section.\<close>

definition app_page :: "(ref \<Rightarrow> StreamlitPage) \<Rightarrow> string \<Rightarrow> ref \<Rightarrow> AppPage" where
  "app_page heap section_header page =
     \<lparr>ap_page_script_hash = sp_script_hash (heap page),
      ap_page_name = sp_title (heap page),
      ap_icon = sp_icon (heap page),
      ap_is_default = sp_default (heap page),
      ap_section_header = section_header,
      ap_url_pathname = replace_char CHR '' '' CHR ''_'' (sp_title (heap page))\<rparr>"

fun app_pages :: "(ref \<Rightarrow> StreamlitPage) \<Rightarrow> (string \<times> ref list) list \<Rightarrow> AppPage list" where
  "app_pages heap [] = []"
| "app_pages heap ((section_header, section_pages) # rest) =
     map (app_page heap section_header) section_pages @ app_pages heap rest"

text \<open>
  \<open>navigation(pages, position=...)\<close>. \<open>get_page_script\<close> stands for the method of the
  pages manager of that name, which is not part of the two modules: from the page table
  just set and the fallback hash it yields the \<open>PageInfo\<close> of the page to run, or
  \<open>None\<close>. The result is the returned page (\<open>None\<close> without a context) or the
  exception, together with the world the call leaves behind.
\<close>

definition navigation ::
  "((string \<times> PageInfo) list \<Rightarrow> string \<Rightarrow> PageInfo option) \<Rightarrow> world \<Rightarrow> nav_pages \<Rightarrow> string
   \<Rightarrow> (error + ref option) \<times> world" where
  "navigation get_page_script w pages position =
     (case ctx w of
        None \<Rightarrow> (Inr None, w)
      | Some c \<Rightarrow>
          let nav_sections = nav_sections_of pages;
              page_list = pages_from_nav_sections nav_sections
          in (case page_list of
                [] \<Rightarrow> (Inl StreamlitAPIException, w)
              | first_page # _ \<Rightarrow>
                  (case visit_sections (page_objects w) nav_sections (None, []) of
                     Inl e \<Rightarrow> (Inl e, w)
                   | Inr (found_default, pagehash_to_pageinfo) \<Rightarrow>
                       let default_page = (case found_default of None \<Rightarrow> first_page | Some p \<Rightarrow> p);
                           heap1 = (case found_default of
                                      None \<Rightarrow> (page_objects w)
                                                (first_page := (page_objects w first_page)\<lparr>sp_default := True\<rparr>)
                                    | Some p \<Rightarrow> page_objects w);
                           msg = \<lparr>nav_position = (if position = ''hidden'' then HIDDEN else SIDEBAR),
                                  nav_sections = map fst nav_sections,
                                  nav_app_pages = app_pages heap1 nav_sections,
                                  nav_page_script_hash = ''''\<rparr>;
                           c1 = c\<lparr>pm_pages := pagehash_to_pageinfo\<rparr>;
                           found_page = get_page_script pagehash_to_pageinfo
                                          (sp_script_hash (heap1 default_page));
                           page_to_return =
                             (case found_page of
                                None \<Rightarrow> None
                              | Some info \<Rightarrow>
                                  (case filter (\<lambda>p. sp_script_hash (heap1 p) = pi_page_script_hash info)
                                          page_list of
                                     [] \<Rightarrow> None
                                   | p # _ \<Rightarrow> Some p));
                           c2 = (case page_to_return of None \<Rightarrow> send_page_not_found c1 | Some p \<Rightarrow> c1);
                           returned = (case page_to_return of None \<Rightarrow> default_page | Some p \<Rightarrow> p);
                           heap2 = heap1(returned := (heap1 returned)\<lparr>sp_can_be_called := True\<rparr>);
                           msg' = msg\<lparr>nav_page_script_hash := sp_script_hash (heap2 returned)\<rparr>
                       in (Inr (Some returned),
                           w\<lparr>ctx := Some (enqueue (Navigation msg') c2), page_objects := heap2\<rparr>))))"

section \<open>The element commands of \<open>button.py\<close>\<close>

subsection \<open>Functions the module imports\<close>

text \<open>
  The module calls helpers that are defined elsewhere in Streamlit or in the Python
  library. They are parameters of the model. \<open>lib\<close> holds the pure ones:
  \<^item> \<open>dedent\<close>: \<open>textwrap.dedent\<close>;
  \<^item> \<open>validate_icon_or_emoji\<close>: the icon string to send, or \<open>None\<close> where the function
    rejects the icon by raising \<open>StreamlitAPIException\<close>;
  \<^item> \<open>is_url\<close>: whether a string is an external URL;
  \<^item> \<open>get_main_script_directory\<close>, \<open>normalize_path_join\<close>, \<open>realpath\<close>: the path
    functions used to resolve a page path.
\<close>

record lib =
  dedent :: "string \<Rightarrow> string"
  validate_icon_or_emoji :: "string \<Rightarrow> string option"
  is_url :: "string \<Rightarrow> bool"
  get_main_script_directory :: "string \<Rightarrow> string"
  normalize_path_join :: "string \<Rightarrow> string \<Rightarrow> string"
  realpath :: "string \<Rightarrow> string"

text \<open>A callback is an opaque Python callable.\<close>

typedecl WidgetCallback

text \<open>The values passed to \<open>compute_widget_id\<close> as keyword arguments.\<close>

datatype pyval = PyNone | PyStr string | PyBool bool

definition opt_str :: "string option \<Rightarrow> pyval" where
  "opt_str x = (case x of None \<Rightarrow> PyNone | Some s \<Rightarrow> PyStr s)"

text \<open>
  \<open>env\<close> holds what depends on the running app and the delta generator \<open>self.dg\<close>:
  \<^item> the four policy checks, each \<open>None\<close> when it passes and the exception it raises
    otherwise;
  \<^item> \<open>compute_widget_id\<close>, applied to the element type, \<open>user_key\<close> and the remaining
    keyword arguments in call order;
  \<^item> \<open>runtime_exists\<close>, \<open>is_in_form\<close>, \<open>current_form_id\<close>, \<open>delta_path_str\<close>: the
    results of \<open>runtime.exists()\<close>, \<open>is_in_form(self.dg)\<close>, \<open>current_form_id(self.dg)\<close>
    and \<open>self.dg._get_delta_path_str()\<close>;
  \<^item> \<open>ui_value\<close>: the value the client holds for a widget id, if any;
  \<^item> \<open>media_file_url\<close>: the URL \<open>media_file_mgr.add\<close> returns for a file.
\<close>

record env =
  check_fragment_path_policy :: "error option"
  check_callback_rules :: "WidgetCallback option \<Rightarrow> error option"
  check_cache_replay_rules :: "error option"
  check_session_state_rules :: "string option \<Rightarrow> error option"
  compute_widget_id :: "string \<Rightarrow> string option \<Rightarrow> (string \<times> pyval) list \<Rightarrow> string"
  runtime_exists :: bool
  is_in_form :: bool
  current_form_id :: string
  delta_path_str :: string
  ui_value :: "string \<Rightarrow> bool option"
  media_file_url :: "media_file \<Rightarrow> string"

text \<open>
  Modelled from the spec: \<open>register_widget\<close>, of \<open>streamlit.runtime.state\<close>, is not part
  of the module. The spec has the constructors "register with an external state store"
  and the serde "map indices back to domain values": the call records the widget and
  yields the deserializer applied to the client's value.
\<close>

definition register_widget ::
  "env \<Rightarrow> string \<Rightarrow> string \<Rightarrow> element \<Rightarrow> world \<Rightarrow> bool \<times> world" where
  "register_widget e element_type widget_id proto w =
     (ButtonSerde_deserialize (ui_value e widget_id),
      w\<lparr>registered := registered w @ [(element_type, proto)]\<rparr>)"

text \<open>\<open>self.dg._enqueue(delta_type, proto)\<close>\<close>

definition dg_enqueue :: "string \<Rightarrow> element \<Rightarrow> world \<Rightarrow> world" where
  "dg_enqueue delta_type proto w = w\<lparr>enqueued := enqueued w @ [(delta_type, proto)]\<rparr>"

text \<open>\<open>page=ctx.active_script_hash if ctx else None\<close>\<close>

definition page_of_ctx :: "ScriptRunContext option \<Rightarrow> pyval" where
  "page_of_ctx c = (case c of Some cx \<Rightarrow> PyStr (active_script_hash cx) | None \<Rightarrow> PyNone)"

subsection \<open>\<open>button\<close>\<close>

text \<open>
  \<open>_button\<close>. Keys are given in their string form (\<open>to_key\<close>); the \<open>args\<close> and \<open>kwargs\<close>
  of the callback are only forwarded and are left out.
\<close>

definition dg_button ::
  "lib \<Rightarrow> env \<Rightarrow> world \<Rightarrow> string \<Rightarrow> string option \<Rightarrow> string option \<Rightarrow> bool
   \<Rightarrow> WidgetCallback option \<Rightarrow> string \<Rightarrow> bool \<Rightarrow> bool \<Rightarrow> ScriptRunContext option
   \<Rightarrow> (error + bool) \<times> world" where
  "dg_button l e w label key help is_form_submitter on_click type disabled use_container_width c =
     (case check_fragment_path_policy e of Some x \<Rightarrow> (Inl x, w) | None \<Rightarrow>
      case (if \<not> is_form_submitter then check_callback_rules e on_click else None) of
        Some x \<Rightarrow> (Inl x, w) | None \<Rightarrow>
      case check_cache_replay_rules e of Some x \<Rightarrow> (Inl x, w) | None \<Rightarrow>
      case check_session_state_rules e key of Some x \<Rightarrow> (Inl x, w) | None \<Rightarrow>
      let widget_id = compute_widget_id e ''button'' key
            [(''label'', PyStr label), (''key'', opt_str key), (''help'', opt_str help),
             (''is_form_submitter'', PyBool is_form_submitter), (''type'', PyStr type),
             (''use_container_width'', PyBool use_container_width), (''page'', page_of_ctx c)]
      in if runtime_exists e \<and> is_in_form e \<and> \<not> is_form_submitter
           then (Inl StreamlitAPIException, w)
         else if runtime_exists e \<and> \<not> is_in_form e \<and> is_form_submitter
           then (Inl StreamlitAPIException, w)
         else
           let button_proto =
                 \<lparr>b_id = widget_id, b_label = label, b_default = False,
                  b_is_form_submitter = is_form_submitter, b_form_id = current_form_id e,
                  b_type = type, b_use_container_width = use_container_width,
                  b_disabled = disabled,
                  b_help = (case help of None \<Rightarrow> '''' | Some h \<Rightarrow> dedent l h)\<rparr>;
               (v, w1) = register_widget e ''button'' widget_id (Button button_proto) w;
               w2 = (case c of
                       Some cx \<Rightarrow> w1\<lparr>app_testing := app_testing w1 @ [(widget_id, v)]\<rparr>
                     | None \<Rightarrow> w1)
           in (Inr v, dg_enqueue ''button'' (Button button_proto) w2))"

text \<open>
  \<open>button\<close>: the type is checked first; only a valid type reaches \<open>_button\<close>.
\<close>

definition button ::
  "lib \<Rightarrow> env \<Rightarrow> world \<Rightarrow> string \<Rightarrow> string option \<Rightarrow> string option
   \<Rightarrow> WidgetCallback option \<Rightarrow> string \<Rightarrow> bool \<Rightarrow> bool \<Rightarrow> (error + bool) \<times> world" where
  "button l e w label key help on_click type disabled use_container_width =
     (if type \<notin> set [''primary'', ''secondary''] then (Inl StreamlitAPIException, w)
      else dg_button l e w label key help False on_click type disabled use_container_width
             (ctx w))"

subsection \<open>\<open>download_button\<close>\<close>

text \<open>
  The \<open>data\<close> argument by its Python type, each with the bytes (or text) it yields;
  \<open>RawIOBase.read()\<close> may yield \<open>None\<close>. \<open>DataOther\<close> is any other object.
\<close>

datatype download_data =
  DataStr string
| DataTextIOWrapper string
| DataBytes string
| DataBytesIO string
| DataBufferedReader string
| DataRawIOBase "string option"
| DataOther

text \<open>\<open>mimetype or default\<close>: \<open>None\<close> and the empty string are both false.\<close>

definition mimetype_or :: "string option \<Rightarrow> string \<Rightarrow> string" where
  "mimetype_or mimetype d =
     (case mimetype of None \<Rightarrow> d | Some m \<Rightarrow> (if m = '''' then d else m))"

text \<open>
  \<open>marshall_file\<close>: the URL to store in the proto, with the world after the file was
  added to the media file manager; \<open>RuntimeError\<close> for data of no known type.
\<close>

definition marshall_file ::
  "env \<Rightarrow> world \<Rightarrow> string \<Rightarrow> download_data \<Rightarrow> string option \<Rightarrow> string option
   \<Rightarrow> (error + string) \<times> world" where
  "marshall_file e w coordinates data mimetype file_name =
     (let converted =
            (case data of
               DataStr s \<Rightarrow> Some (s, mimetype_or mimetype ''text/plain'')
             | DataTextIOWrapper s \<Rightarrow> Some (s, mimetype_or mimetype ''text/plain'')
             | DataBytes b \<Rightarrow> Some (b, mimetype_or mimetype ''application/octet-stream'')
             | DataBytesIO b \<Rightarrow> Some (b, mimetype_or mimetype ''application/octet-stream'')
             | DataBufferedReader b \<Rightarrow>
                 Some (b, mimetype_or mimetype ''application/octet-stream'')
             | DataRawIOBase r \<Rightarrow>
                 Some ((case r of None \<Rightarrow> '''' | Some b \<Rightarrow> b),
                       mimetype_or mimetype ''application/octet-stream'')
             | DataOther \<Rightarrow> None)
      in case converted of
           None \<Rightarrow> (Inl RuntimeError, w)
         | Some (data_as_bytes, mt) \<Rightarrow>
             if runtime_exists e
             then (Inr (media_file_url e (data_as_bytes, mt, coordinates, file_name)),
                   w\<lparr>media_files := media_files w @ [(data_as_bytes, mt, coordinates, file_name)]\<rparr>)
             else (Inr '''', w))"

definition dg_download_button ::
  "lib \<Rightarrow> env \<Rightarrow> world \<Rightarrow> string \<Rightarrow> download_data \<Rightarrow> string option \<Rightarrow> string option
   \<Rightarrow> string option \<Rightarrow> string option \<Rightarrow> WidgetCallback option \<Rightarrow> string \<Rightarrow> bool \<Rightarrow> bool
   \<Rightarrow> ScriptRunContext option \<Rightarrow> (error + bool) \<times> world" where
  "dg_download_button l e w label data file_name mime key help on_click type disabled
       use_container_width c =
     (case check_cache_replay_rules e of Some x \<Rightarrow> (Inl x, w) | None \<Rightarrow>
      case check_session_state_rules e key of Some x \<Rightarrow> (Inl x, w) | None \<Rightarrow>
      case check_callback_rules e on_click of Some x \<Rightarrow> (Inl x, w) | None \<Rightarrow>
      let widget_id = compute_widget_id e ''download_button'' key
            [(''label'', PyStr label), (''file_name'', opt_str file_name),
             (''mime'', opt_str mime), (''key'', opt_str key), (''help'', opt_str help),
             (''type'', PyStr type), (''use_container_width'', PyBool use_container_width),
             (''page'', page_of_ctx c)]
      in if is_in_form e then (Inl StreamlitAPIException, w)
         else
           (case marshall_file e w (delta_path_str e) data mime file_name of
              (Inl x, w1) \<Rightarrow> (Inl x, w1)
            | (Inr url, w1) \<Rightarrow>
                let download_button_proto =
                      \<lparr>db_id = widget_id, db_use_container_width = use_container_width,
                       db_label = label, db_default = False, db_type = type, db_url = url,
                       db_disabled = disabled,
                       db_help = (case help of None \<Rightarrow> '''' | Some h \<Rightarrow> dedent l h)\<rparr>;
                    (v, w2) = register_widget e ''download_button'' widget_id
                                (DownloadButton download_button_proto) w1
                in (Inr v, dg_enqueue ''download_button'' (DownloadButton download_button_proto) w2)))"

definition download_button ::
  "lib \<Rightarrow> env \<Rightarrow> world \<Rightarrow> string \<Rightarrow> download_data \<Rightarrow> string option \<Rightarrow> string option
   \<Rightarrow> string option \<Rightarrow> string option \<Rightarrow> WidgetCallback option \<Rightarrow> string \<Rightarrow> bool \<Rightarrow> bool
   \<Rightarrow> (error + bool) \<times> world" where
  "download_button l e w label data file_name mime key help on_click type disabled
       use_container_width =
     (if type \<notin> set [''primary'', ''secondary''] then (Inl StreamlitAPIException, w)
      else dg_download_button l e w label data file_name mime key help on_click type disabled
             use_container_width (ctx w))"

subsection \<open>\<open>link_button\<close>\<close>

definition dg_link_button ::
  "lib \<Rightarrow> world \<Rightarrow> string \<Rightarrow> string \<Rightarrow> string option \<Rightarrow> string \<Rightarrow> bool \<Rightarrow> bool
   \<Rightarrow> (error + unit) \<times> world" where
  "dg_link_button l w label url help type disabled use_container_width =
     (let link_button_proto =
            \<lparr>lb_label = label, lb_url = url, lb_type = type,
             lb_use_container_width = use_container_width, lb_disabled = disabled,
             lb_help = (case help of None \<Rightarrow> '''' | Some h \<Rightarrow> dedent l h)\<rparr>
      in (Inr (), dg_enqueue ''link_button'' (LinkButton link_button_proto) w))"

definition link_button ::
  "lib \<Rightarrow> world \<Rightarrow> string \<Rightarrow> string \<Rightarrow> string option \<Rightarrow> string \<Rightarrow> bool \<Rightarrow> bool
   \<Rightarrow> (error + unit) \<times> world" where
  "link_button l w label url help type disabled use_container_width =
     (if type \<notin> set [''primary'', ''secondary''] then (Inl StreamlitAPIException, w)
      else dg_link_button l w label url help type disabled use_container_width)"

subsection \<open>\<open>page_link\<close>\<close>

text \<open>The \<open>page\<close> argument: a string (a path or a URL) or a page object.\<close>

datatype page_arg = PageStr string | PageObj ref

text \<open>
  The loop over \<open>all_app_pages.values()\<close>: the first page whose script path is the
  requested one fills in the proto, and the loop stops there.
\<close>

fun find_app_page ::
  "string \<Rightarrow> string option \<Rightarrow> (string \<times> PageInfo) list \<Rightarrow> PageLinkProto \<Rightarrow> PageLinkProto" where
  "find_app_page requested_page label [] proto = proto"
| "find_app_page requested_page label ((h, page_data) # rest) proto =
     (if requested_page = pi_script_path page_data
      then (if label = None
            then proto\<lparr>pl_label := replace_char CHR ''_'' CHR '' '' (pi_page_name page_data)\<rparr>
            else proto)
             \<lparr>pl_page_script_hash := pi_page_script_hash page_data,
              pl_page := pi_page_name page_data\<rparr>
      else find_app_page requested_page label rest proto)"

text \<open>
  The first part of \<open>_page_link\<close>: the proto with \<open>disabled\<close>, \<open>label\<close>, \<open>icon\<close>, \<open>help\<close>
  and \<open>use_container_width\<close> filled in, or \<open>None\<close> where the icon check raises.
\<close>

definition page_link_proto ::
  "lib \<Rightarrow> string option \<Rightarrow> string option \<Rightarrow> string option \<Rightarrow> bool \<Rightarrow> bool option
   \<Rightarrow> PageLinkProto option" where
  "page_link_proto l label icon help disabled use_container_width =
     (let proto0 =
            \<lparr>pl_disabled = disabled,
             pl_label = (case label of None \<Rightarrow> '''' | Some s \<Rightarrow> s),
             pl_icon = '''', pl_help = '''', pl_use_container_width = False,
             pl_page_script_hash = '''', pl_page = '''', pl_external = False\<rparr>
      in case (case icon of
                 None \<Rightarrow> Some proto0
               | Some i \<Rightarrow> map_option (\<lambda>v. proto0\<lparr>pl_icon := v\<rparr>) (validate_icon_or_emoji l i)) of
           None \<Rightarrow> None
         | Some proto1 \<Rightarrow>
             let proto2 = (case help of None \<Rightarrow> proto1 | Some h \<Rightarrow> proto1\<lparr>pl_help := dedent l h\<rparr>)
             in Some (case use_container_width of
                        None \<Rightarrow> proto2
                      | Some u \<Rightarrow> proto2\<lparr>pl_use_container_width := u\<rparr>))"

text \<open>
  \<open>_page_link\<close>. For a page object whose script hash is empty, the final check builds
  its message from \<open>main_script_directory\<close>, which only the string branch binds, so
  Python raises \<open>UnboundLocalError\<close> there.
\<close>

definition dg_page_link ::
  "lib \<Rightarrow> world \<Rightarrow> page_arg \<Rightarrow> string option \<Rightarrow> string option \<Rightarrow> string option \<Rightarrow> bool
   \<Rightarrow> bool option \<Rightarrow> (error + unit) \<times> world" where
  "dg_page_link l w page label icon help disabled use_container_width =
     (case page_link_proto l label icon help disabled use_container_width of
        None \<Rightarrow> (Inl StreamlitAPIException, w)
      | Some proto3 \<Rightarrow>
          (case page of
             PageObj r \<Rightarrow>
               let pg = page_objects w r;
                   proto4 = proto3\<lparr>pl_page_script_hash := sp_script_hash pg,
                                   pl_page := sp_url_path pg\<rparr>;
                   proto5 = (if label = None then proto4\<lparr>pl_label := sp_title pg\<rparr>
                             else proto4)
               in if pl_page_script_hash proto5 = '''' then (Inl UnboundLocalError, w)
                  else (Inr (), dg_enqueue ''page_link'' (PageLink proto5) w)
           | PageStr s \<Rightarrow>
               if is_url l s then
                 (if label = None \<or> label = Some '''' then (Inl StreamlitAPIException, w)
                  else (Inr (),
                        dg_enqueue ''page_link''
                          (PageLink (proto3\<lparr>pl_page := s, pl_external := True\<rparr>)) w))
               else
                 let ctx_main_script =
                       (case ctx w of Some c \<Rightarrow> main_script_path c | None \<Rightarrow> '''');
                     all_app_pages = (case ctx w of Some c \<Rightarrow> pm_pages c | None \<Rightarrow> []);
                     main_script_directory = get_main_script_directory l ctx_main_script;
                     requested_page =
                       realpath l (normalize_path_join l main_script_directory s);
                     proto4 = find_app_page requested_page label all_app_pages proto3
                 in if pl_page_script_hash proto4 = '''' then (Inl StreamlitAPIException, w)
                    else (Inr (), dg_enqueue ''page_link'' (PageLink proto4) w)))"

definition page_link ::
  "lib \<Rightarrow> world \<Rightarrow> page_arg \<Rightarrow> string option \<Rightarrow> string option \<Rightarrow> string option \<Rightarrow> bool
   \<Rightarrow> bool option \<Rightarrow> (error + unit) \<times> world" where
  "page_link l w page label icon help disabled use_container_width =
     dg_page_link l w page label icon help disabled use_container_width"

section \<open>Sample inputs\<close>

text \<open>
  Concrete pages, contexts and helper functions on which the theorems below are
  instantiated. Pages 0 and 1 are ordinary pages, pages 2 and 3 are both marked
  default, and every other reference is a second page titled \<open>Home\<close>.
\<close>

definition sample_page :: "string \<Rightarrow> bool \<Rightarrow> StreamlitPage" where
  "sample_page t d =
     \<lparr>sp_page = PageCallable, sp_title = t, sp_icon = '''', sp_default = d,
      sp_script_hash = ''#'' @ t, sp_url_path = replace_char CHR '' '' CHR ''_'' t,
      sp_can_be_called = False\<rparr>"

definition sample_pages :: "ref \<Rightarrow> StreamlitPage" where
  "sample_pages r =
     (if r = 0 then sample_page ''Home'' False
      else if r = 1 then sample_page ''About us'' False
      else if r = 2 then sample_page ''Start'' True
      else if r = 3 then sample_page ''Landing'' True
      else sample_page ''Home'' False)"

definition sample_ctx :: ScriptRunContext where
  "sample_ctx =
     \<lparr>main_script_path = ''/app/main.py'', active_script_hash = ''#main'',
      pm_pages = [], forward_msgs = []\<rparr>"

definition sample_world :: "ScriptRunContext option \<Rightarrow> world" where
  "sample_world c =
     \<lparr>ctx = c, page_objects = sample_pages, registered = [], enqueued = [],
      app_testing = [], media_files = []\<rparr>"


text \<open>
  A pages manager that finds no page to run, and library functions: only Material
  icon names pass the icon check, and a URL starts with \<open>http://\<close> or \<open>https://\<close>.
\<close>

definition no_page_script :: "(string \<times> PageInfo) list \<Rightarrow> string \<Rightarrow> PageInfo option" where
  "no_page_script table fallback_page_hash = None"

definition sample_lib :: lib where
  "sample_lib =
     \<lparr>dedent = (\<lambda>s. s),
      validate_icon_or_emoji = (\<lambda>i. if take 10 i = '':material/'' then Some i else None),
      is_url = (\<lambda>s. take 7 s = ''http://'' \<or> take 8 s = ''https://''),
      get_main_script_directory = (\<lambda>s. ''/app''),
      normalize_path_join = (\<lambda>a b. a @ ''/'' @ b),
      realpath = (\<lambda>s. s)\<rparr>"

definition sample_env :: env where
  "sample_env =
     \<lparr>check_fragment_path_policy = None,
      check_callback_rules = (\<lambda>cb. None),
      check_cache_replay_rules = None,
      check_session_state_rules = (\<lambda>k. None),
      compute_widget_id = (\<lambda>element_type user_key kwargs. ''$$ID-'' @ element_type),
      runtime_exists = True, is_in_form = False, current_form_id = '''',
      delta_path_str = ''0'', ui_value = (\<lambda>widget_id. None),
      media_file_url = (\<lambda>f. ''/media/file'')\<rparr>"

section \<open>Properties of the serde classes\<close>

lemma py_index_bounds:
  "v \<in> set xs \<Longrightarrow>
   \<exists>i. py_index xs v = Inr i \<and> 0 \<le> i \<and> i < int (length xs) \<and> xs ! nat i = v"
proof (induction xs)
  case Nil
  then show ?case by simp
next
  case (Cons x xs)
  show ?case
  proof (cases "x = v")
    case True
    then show ?thesis by (intro exI [of _ 0]) simp
  next
    case False
    with Cons.prems have "v \<in> set xs" by simp
    from Cons.IH [OF this] obtain i where i: "py_index xs v = Inr i" "0 \<le> i"
      "i < int (length xs)" "xs ! nat i = v"
      by (elim exE conjE)
    from i(2) have n: "nat (i + 1) = Suc (nat i)" by simp
    have "(x # xs) ! nat (i + 1) = v"
      unfolding n using i(4) by simp
    moreover have "py_index (x # xs) v = Inr (i + 1)"
      using False i(1) by simp
    moreover have "0 \<le> i + 1" "i + 1 < int (length (x # xs))"
      using i(2,3) by simp_all
    ultimately show ?thesis by (intro exI [of _ "i + 1"] conjI)
  qed
qed

lemma py_index_getitem:
  assumes "v \<in> set xs"
  shows "\<exists>i. py_index xs v = Inr i \<and> py_getitem xs i = Inr v"
proof -
  from py_index_bounds [OF assms] obtain i where i: "py_index xs v = Inr i" "0 \<le> i"
    "i < int (length xs)" "xs ! nat i = v"
    by (elim exE conjE)
  from i(2,3) have "py_getitem xs i = Inr (xs ! nat i)"
    by (simp add: py_getitem_def)
  with i(1,4) show ?thesis by simp
qed

lemma py_index_nth:
  "distinct xs \<Longrightarrow> n < length xs \<Longrightarrow> py_index xs (xs ! n) = Inr (int n)"
proof (induction xs arbitrary: n)
  case Nil
  then show ?case by simp
next
  case (Cons x xs)
  show ?case
  proof (cases n)
    case 0
    then show ?thesis by simp
  next
    case (Suc m)
    with Cons.prems have "m < length xs" "xs ! m \<noteq> x" "distinct xs"
      by auto
    with Cons.IH [of m] Suc show ?thesis by auto
  qed
qed

lemma py_getitem_index:
  assumes "distinct xs" "0 \<le> i" "i < int (length xs)"
  shows "\<exists>v. py_getitem xs i = Inr v \<and> py_index xs v = Inr i"
proof -
  from assms(2,3) have "nat i < length xs" by simp
  with assms(1) have "py_index xs (xs ! nat i) = Inr (int (nat i))"
    by (rule py_index_nth)
  with assms(2,3) show ?thesis by (simp add: py_getitem_def)
qed

lemma comprehension_roundtrip:
  "\<forall>x\<in>set xs. \<exists>y. f x = Inr y \<and> g y = Inr x \<Longrightarrow>
   \<exists>ys. comprehension f xs = Inr ys \<and> comprehension g ys = Inr xs"
proof (induction xs)
  case Nil
  then show ?case by simp
next
  case (Cons x xs)
  then obtain y where y: "f x = Inr y" "g y = Inr x" by auto
  from Cons obtain ys where ys: "comprehension f xs = Inr ys" "comprehension g ys = Inr xs"
    by auto
  from y ys show ?case by simp
qed

text \<open>
  C10. \<open>ButtonSerde.deserialize\<close> is defined on all of \<open>bool | None\<close> and returns a
  bool: \<open>None\<close> and \<open>False\<close> give \<open>False\<close>, \<open>True\<close> gives \<open>True\<close>. A button with no
  client value yet therefore reads as not clicked.
\<close>

theorem ButtonSerde_deserialize_total:
  "ButtonSerde_deserialize None = False
   \<and> ButtonSerde_deserialize (Some False) = False
   \<and> ButtonSerde_deserialize (Some True) = True"
  by (simp add: ButtonSerde_deserialize_def)

text \<open>
  C3. With \<open>options = "thumbs"\<close>, \<open>feedback\<close> builds the serde with the score table
  \<open>[1, 0]\<close>, whose \<open>deserialize\<close> maps the selected index 0 to score 1 (thumbs up) and
  the selected index 1 to score 0 (thumbs down).
\<close>

theorem feedback_thumbs_scores:
  "feedback_serde ''thumbs'' = Inr \<lparr>index_to_score_mapping = Some [1, 0]\<rparr>
   \<and> ButtonGroupFeedbackSerde_deserialize \<lparr>index_to_score_mapping = Some [1, 0]\<rparr> (Some [0])
       = Inr (Some 1)
   \<and> ButtonGroupFeedbackSerde_deserialize \<lparr>index_to_score_mapping = Some [1, 0]\<rparr> (Some [1])
       = Inr (Some 0)"
  by (simp add: feedback_serde_def ButtonGroupFeedbackSerde_deserialize_def py_getitem_def)

text \<open>
  C1. For an option list without duplicates: serializing a list of selected values
  that all occur among the options and deserializing the result gives the values
  back; deserializing a list of indices that are all in range of the option list and
  serializing the result gives the indices back.
\<close>

theorem ButtonGroupOptionsSerde_roundtrip:
  assumes "distinct (options self)"
    and "set vals \<subseteq> set (options self)"
    and "\<forall>i\<in>set idxs. 0 \<le> i \<and> i < int (length (options self))"
  shows "(\<exists>ui. ButtonGroupOptionsSerde_serialize self (Some vals) = Inr ui
            \<and> ButtonGroupOptionsSerde_deserialize self (Some ui) = Inr vals)
       \<and> (\<exists>vs. ButtonGroupOptionsSerde_deserialize self (Some idxs) = Inr vs
            \<and> ButtonGroupOptionsSerde_serialize self (Some vs) = Inr idxs)"
proof
  from assms(2)
  have "\<forall>v\<in>set vals. \<exists>i. py_index (options self) v = Inr i \<and> py_getitem (options self) i = Inr v"
    by (auto intro: py_index_getitem)
  then show "\<exists>ui. ButtonGroupOptionsSerde_serialize self (Some vals) = Inr ui
            \<and> ButtonGroupOptionsSerde_deserialize self (Some ui) = Inr vals"
    unfolding ButtonGroupOptionsSerde_serialize_def ButtonGroupOptionsSerde_deserialize_def
    by (simp add: comprehension_roundtrip)
next
  from assms(1,3)
  have "\<forall>i\<in>set idxs. \<exists>v. py_getitem (options self) i = Inr v \<and> py_index (options self) v = Inr i"
    by (auto intro: py_getitem_index)
  then show "\<exists>vs. ButtonGroupOptionsSerde_deserialize self (Some idxs) = Inr vs
            \<and> ButtonGroupOptionsSerde_serialize self (Some vs) = Inr idxs"
    unfolding ButtonGroupOptionsSerde_serialize_def ButtonGroupOptionsSerde_deserialize_def
    by (simp add: comprehension_roundtrip)
qed

theorem ButtonGroupOptionsSerde_roundtrip_witness:
  "(\<exists>ui. ButtonGroupOptionsSerde_serialize
            \<lparr>options = [''a'', ''b'', ''c''], default_value = []\<rparr> (Some [''c'', ''a'']) = Inr ui
        \<and> ButtonGroupOptionsSerde_deserialize
            \<lparr>options = [''a'', ''b'', ''c''], default_value = []\<rparr> (Some ui) = Inr [''c'', ''a''])
   \<and> (\<exists>vs. ButtonGroupOptionsSerde_deserialize
            \<lparr>options = [''a'', ''b'', ''c''], default_value = []\<rparr> (Some [1, 2]) = Inr vs
        \<and> ButtonGroupOptionsSerde_serialize
            \<lparr>options = [''a'', ''b'', ''c''], default_value = []\<rparr> (Some vs) = Inr [1, 2])"
  using ButtonGroupOptionsSerde_roundtrip
    [of "\<lparr>options = [''a'', ''b'', ''c''], default_value = []\<rparr>" "[''c'', ''a'']" "[1, 2]"]
  by simp

section \<open>Properties of \<open>navigation\<close>\<close>

subsection \<open>The loop over the pages\<close>


lemma visit_pages_append:
  "visit_pages heap (xs @ ys) st =
     (case visit_pages heap xs st of Inl e \<Rightarrow> Inl e | Inr st' \<Rightarrow> visit_pages heap ys st')"
  by (induction xs arbitrary: st) (auto split: sum.splits)

lemma visit_sections_flat:
  "visit_sections heap secs st = visit_pages heap (pages_from_nav_sections secs) st"
proof (induction secs arbitrary: st)
  case Nil
  show ?case by simp
next
  case (Cons s secs)
  obtain header ps where s: "s = (header, ps)" by (cases s)
  show ?case
    unfolding s by (simp add: visit_pages_append Cons.IH split: sum.splits)
qed

lemma visit_page_error:
  "visit_page heap page st = Inl e \<Longrightarrow> e = StreamlitAPIException"
  by (cases st) (auto simp: visit_page_def Let_def split: if_splits)

lemma visit_pages_error:
  "visit_pages heap ps st = Inl e \<Longrightarrow> e = StreamlitAPIException"
proof (induction ps arbitrary: st)
  case Nil
  then show ?case by simp
next
  case (Cons p ps)
  show ?case
  proof (cases "visit_page heap p st")
    case (Inl x)
    with Cons.prems have "e = x" by simp
    with Inl show ?thesis by (simp add: visit_page_error)
  next
    case (Inr st')
    with Cons.prems have "visit_pages heap ps st' = Inl e" by simp
    then show ?thesis by (rule Cons.IH)
  qed
qed

lemma visit_page_Inr:
  assumes "visit_page heap p (d0, i0) = Inr (d, i)"
  shows "i = i0 @ [(sp_script_hash (heap p), page_info heap p)]"
    and "sp_script_hash (heap p) \<notin> set (map fst i0)"
    and "sp_default (heap p) \<Longrightarrow> d0 = None \<and> d = Some p"
    and "\<not> sp_default (heap p) \<Longrightarrow> d = d0"
  using assms by (auto simp: visit_page_def Let_def split: if_splits)

lemma visit_pages_Inr:
  "visit_pages heap ps (d0, i0) = Inr (d, i) \<Longrightarrow>
     i = i0 @ map (\<lambda>p. (sp_script_hash (heap p), page_info heap p)) ps
   \<and> (distinct (map fst i0) \<longrightarrow> distinct (map fst i))
   \<and> length (filter (\<lambda>p. sp_default (heap p)) ps) \<le> (if d0 = None then 1 else 0)"
proof (induction ps arbitrary: d0 i0)
  case Nil
  then show ?case by simp
next
  case (Cons p ps)
  from Cons.prems obtain d1 i1 where
    step: "visit_page heap p (d0, i0) = Inr (d1, i1)" and
    rest: "visit_pages heap ps (d1, i1) = Inr (d, i)"
    by (auto split: sum.splits)
  note IH = Cons.IH [OF rest]
  note one = visit_page_Inr [OF step]
  have "i = i0 @ map (\<lambda>p. (sp_script_hash (heap p), page_info heap p)) (p # ps)"
    using IH one(1) by simp
  moreover have "distinct (map fst i0) \<longrightarrow> distinct (map fst i)"
  proof
    assume "distinct (map fst i0)"
    with one(1,2) have "distinct (map fst i1)" by simp
    with IH show "distinct (map fst i)" by blast
  qed
  moreover have "length (filter (\<lambda>p. sp_default (heap p)) (p # ps)) \<le> (if d0 = None then 1 else 0)"
  proof (cases "sp_default (heap p)")
    case True
    with one(3) have "d0 = None" "d1 = Some p" by simp_all
    with IH True show ?thesis by simp
  next
    case False
    with one(4) have "d1 = d0" by simp
    with IH False show ?thesis by simp
  qed
  ultimately show ?case by (intro conjI)
qed

lemma visit_pages_no_default:
  "\<forall>p\<in>set ps. \<not> sp_default (heap p) \<Longrightarrow>
   distinct (map fst i0 @ map (\<lambda>p. sp_script_hash (heap p)) ps) \<Longrightarrow>
   visit_pages heap ps (d0, i0) =
     Inr (d0, i0 @ map (\<lambda>p. (sp_script_hash (heap p), page_info heap p)) ps)"
proof (induction ps arbitrary: i0)
  case Nil
  show ?case by simp
next
  case (Cons p ps)
  from Cons.prems have p: "\<not> sp_default (heap p)" "sp_script_hash (heap p) \<notin> set (map fst i0)"
    by auto
  then have step: "visit_page heap p (d0, i0) =
      Inr (d0, i0 @ [(sp_script_hash (heap p), page_info heap p)])"
    by (simp add: visit_page_def)
  from Cons.prems have
    "distinct (map fst (i0 @ [(sp_script_hash (heap p), page_info heap p)])
               @ map (\<lambda>p. sp_script_hash (heap p)) ps)"
    by auto
  with Cons.prems(1) have "visit_pages heap ps (d0, i0 @ [(sp_script_hash (heap p), page_info heap p)]) =
      Inr (d0, (i0 @ [(sp_script_hash (heap p), page_info heap p)])
               @ map (\<lambda>p. (sp_script_hash (heap p), page_info heap p)) ps)"
    by (intro Cons.IH) simp_all
  with step show ?case by simp
qed

lemma app_pages_is_default:
  "map ap_is_default (app_pages heap secs) =
     map (\<lambda>p. sp_default (heap p)) (pages_from_nav_sections secs)"
proof (induction secs)
  case Nil
  show ?case by simp
next
  case (Cons s secs)
  obtain header ps where s: "s = (header, ps)" by (cases s)
  show ?case unfolding s using Cons.IH by (simp add: app_page_def)
qed

lemma pages_from_nav_sections_empty:
  "pages_from_nav_sections secs = [] \<longleftrightarrow> (\<forall>s\<in>set secs. snd s = [])"
  by (induction secs rule: pages_from_nav_sections.induct) auto

lemma navigation_no_pages:
  assumes "ctx w = Some c"
    and "pages_from_nav_sections (nav_sections_of pages) = []"
  shows "navigation get_page_script w pages position = (Inl StreamlitAPIException, w)"
  using assms by (simp add: navigation_def)

lemma navigation_loop_raises:
  assumes "ctx w = Some c"
    and "visit_pages (page_objects w) (pages_from_nav_sections (nav_sections_of pages)) (None, [])
           = Inl e"
  shows "navigation get_page_script w pages position = (Inl StreamlitAPIException, w)"
proof (cases "pages_from_nav_sections (nav_sections_of pages)")
  case Nil
  with assms(1) show ?thesis by (rule navigation_no_pages)
next
  case (Cons first rest)
  from assms(2) have "e = StreamlitAPIException" by (rule visit_pages_error)
  with assms Cons show ?thesis
    by (simp add: navigation_def visit_sections_flat)
qed


lemma first_not_in_rest:
  assumes "distinct (map f (first # rest))"
  shows "first \<notin> set rest"
  using assms by auto

subsection \<open>Rejected page collections\<close>

text \<open>
  C5. A call to \<open>navigation\<close> with a script-run context and an empty page collection (an
  empty list, or a dict all of whose section lists are empty) raises
  \<open>StreamlitAPIException\<close> and leaves the world as it was: no message has been built or
  enqueued, no page table set, no page object changed.
\<close>

theorem navigation_rejects_no_pages:
  assumes "ctx w = Some c"
    and "pages = PageList [] \<or> (\<exists>d. pages = PageDict d \<and> (\<forall>s\<in>set d. snd s = []))"
  shows "navigation get_page_script w pages position = (Inl StreamlitAPIException, w)"
proof -
  from assms(2) have "pages_from_nav_sections (nav_sections_of pages) = []"
    by (auto simp: pages_from_nav_sections_empty)
  with assms(1) show ?thesis by (rule navigation_no_pages)
qed

theorem navigation_rejects_no_pages_witness:
  "navigation no_page_script (sample_world (Some sample_ctx))
      (PageDict [(''Tools'', []), (''Docs'', [])]) ''sidebar''
     = (Inl StreamlitAPIException, sample_world (Some sample_ctx))"
  using navigation_rejects_no_pages
    [where w = "sample_world (Some sample_ctx)" and c = sample_ctx
       and pages = "PageDict [(''Tools'', []), (''Docs'', [])]"
       and get_page_script = no_page_script and position = "''sidebar''"]
  by (simp add: sample_world_def)

text \<open>
  Without a script-run context \<open>navigation\<close> returns \<open>None\<close> at once, whatever the
  pages are: here for two pages that are both marked default.
\<close>

theorem navigation_without_context_two_defaults:
  "2 \<le> length (filter (\<lambda>p. sp_default (page_objects (sample_world None) p))
                 (pages_from_nav_sections (nav_sections_of (PageList [2, 3]))))
   \<and> navigation no_page_script (sample_world None) (PageList [2, 3]) ''sidebar''
       = (Inr None, sample_world None)"
  by (simp add: navigation_def sample_world_def sample_pages_def sample_page_def)

text \<open>
  C6, for calls with a script-run context. Such a call whose page collection
  contains two or more pages with \<open>default=True\<close> raises \<open>StreamlitAPIException\<close>; the
  world is left as it was.
\<close>

theorem navigation_rejects_two_defaults:
  assumes "ctx w = Some c"
    and "2 \<le> length (filter (\<lambda>p. sp_default (page_objects w p))
                 (pages_from_nav_sections (nav_sections_of pages)))"
  shows "navigation get_page_script w pages position = (Inl StreamlitAPIException, w)"
proof (cases "visit_pages (page_objects w) (pages_from_nav_sections (nav_sections_of pages))
                (None, [])")
  case (Inl e)
  with assms(1) show ?thesis by (rule navigation_loop_raises)
next
  case (Inr st)
  obtain d i where "st = (d, i)" by (cases st)
  with Inr have "length (filter (\<lambda>p. sp_default (page_objects w p))
                   (pages_from_nav_sections (nav_sections_of pages))) \<le> 1"
    using visit_pages_Inr [of "page_objects w" _ None "[]" d i] by simp
  with assms(2) show ?thesis by simp
qed

theorem navigation_rejects_two_defaults_witness:
  "navigation no_page_script (sample_world (Some sample_ctx)) (PageList [2, 0, 3]) ''sidebar''
     = (Inl StreamlitAPIException, sample_world (Some sample_ctx))"
  using navigation_rejects_two_defaults
    [where w = "sample_world (Some sample_ctx)" and c = sample_ctx
       and pages = "PageList [2, 0, 3]"
       and get_page_script = no_page_script and position = "''sidebar''"]
  by (simp add: sample_world_def sample_pages_def sample_page_def)




subsection \<open>The default page\<close>

text \<open>
  C9. Take a valid call to \<open>navigation\<close> (a script-run context, at least one page, no
  two pages with the same script hash) in which no page has \<open>default=True\<close>. The call
  returns a page, and the first page of the flattened page list has become the default
  page: its \<open>default\<close> flag is set in the store while the other pages keep theirs
  unset, the navigation message enqueued last marks exactly the first page as default,
  and the first page's hash is the fallback given to the pages manager, the first page
  being returned when the manager finds no page to run.
\<close>

theorem navigation_first_page_default:
  assumes "ctx w = Some c"
    and "pages_from_nav_sections (nav_sections_of pages) = first # rest"
    and "\<forall>p\<in>set (first # rest). \<not> sp_default (page_objects w p)"
    and "distinct (map (\<lambda>p. sp_script_hash (page_objects w p)) (first # rest))"
  shows "\<exists>r w' c' msg.
           navigation get_page_script w pages position = (Inr (Some r), w')
         \<and> sp_default (page_objects w' first)
         \<and> (\<forall>p\<in>set rest. \<not> sp_default (page_objects w' p))
         \<and> ctx w' = Some c'
         \<and> last (forward_msgs c') = Navigation msg
         \<and> map ap_is_default (nav_app_pages msg) = True # map (\<lambda>p. False) rest
         \<and> (get_page_script (pm_pages c') (sp_script_hash (page_objects w first)) = None
              \<longrightarrow> r = first)"
proof -
  let ?h = "page_objects w"
  let ?secs = "nav_sections_of pages"
  define infos where "infos = map (\<lambda>p. (sp_script_hash (?h p), page_info ?h p)) (first # rest)"
  define heap1 where "heap1 = ?h(first := (?h first)\<lparr>sp_default := True\<rparr>)"
  define page_to_return where "page_to_return =
    (case get_page_script infos (sp_script_hash (heap1 first)) of
       None \<Rightarrow> None
     | Some info \<Rightarrow>
         (case filter (\<lambda>p. sp_script_hash (heap1 p) = pi_page_script_hash info) (first # rest) of
            [] \<Rightarrow> None
          | p # _ \<Rightarrow> Some p))"
  define returned where "returned = (case page_to_return of None \<Rightarrow> first | Some p \<Rightarrow> p)"
  define heap2 where "heap2 = heap1(returned := (heap1 returned)\<lparr>sp_can_be_called := True\<rparr>)"
  define msg where "msg =
    \<lparr>nav_position = (if position = ''hidden'' then HIDDEN else SIDEBAR),
     nav_sections = map fst ?secs,
     nav_app_pages = app_pages heap1 ?secs,
     nav_page_script_hash = sp_script_hash (heap2 returned)\<rparr>"
  define c2 where "c2 =
    (case page_to_return of
       None \<Rightarrow> send_page_not_found (c\<lparr>pm_pages := infos\<rparr>)
     | Some p \<Rightarrow> c\<lparr>pm_pages := infos\<rparr>)"
  define w' where "w' = w\<lparr>ctx := Some (enqueue (Navigation msg) c2), page_objects := heap2\<rparr>"
  have loop: "visit_sections ?h ?secs (None, []) = Inr (None, infos)"
    unfolding visit_sections_flat assms(2) infos_def
    using visit_pages_no_default [of "first # rest" ?h "[]" None] assms(3,4) by simp
  have run: "navigation get_page_script w pages position = (Inr (Some returned), w')"
    unfolding navigation_def Let_def w'_def msg_def c2_def heap2_def returned_def
      page_to_return_def heap1_def
    by (simp add: assms(1,2) loop
        cong del: option.case_cong_weak list.case_cong_weak if_weak_cong)
  have fresh: "first \<notin> set rest"
    using assms(4) by (rule first_not_in_rest)
  have default2: "sp_default (heap2 p) = sp_default (heap1 p)" for p
    by (simp add: heap2_def)
  have d_first: "sp_default (page_objects w' first)"
    by (simp add: w'_def default2 heap1_def)
  have d_rest: "\<forall>p\<in>set rest. \<not> sp_default (page_objects w' p)"
    using assms(3) fresh by (auto simp: w'_def default2 heap1_def)
  have flags: "map ap_is_default (nav_app_pages msg) = True # map (\<lambda>p. False) rest"
    using assms(3) fresh
    by (auto simp: msg_def app_pages_is_default assms(2) heap1_def)
  have sent: "last (forward_msgs (enqueue (Navigation msg) c2)) = Navigation msg"
    by (simp add: enqueue_def)
  have table: "pm_pages (enqueue (Navigation msg) c2) = infos"
    by (simp add: enqueue_def c2_def send_page_not_found_def split: option.split)
  have hash1: "sp_script_hash (heap1 first) = sp_script_hash (?h first)"
    by (simp add: heap1_def)
  have fallback: "get_page_script (pm_pages (enqueue (Navigation msg) c2))
                    (sp_script_hash (?h first)) = None \<longrightarrow> returned = first"
    unfolding table by (simp add: returned_def page_to_return_def hash1)
  have ctx': "ctx w' = Some (enqueue (Navigation msg) c2)"
    by (simp add: w'_def)
  show ?thesis
  proof (intro exI conjI)
    show "navigation get_page_script w pages position = (Inr (Some returned), w')"
      by (rule run)
    show "sp_default (page_objects w' first)" by (rule d_first)
    show "\<forall>p\<in>set rest. \<not> sp_default (page_objects w' p)" by (rule d_rest)
    show "ctx w' = Some (enqueue (Navigation msg) c2)" by (rule ctx')
    show "last (forward_msgs (enqueue (Navigation msg) c2)) = Navigation msg" by (rule sent)
    show "map ap_is_default (nav_app_pages msg) = True # map (\<lambda>p. False) rest"
      by (rule flags)
    show "get_page_script (pm_pages (enqueue (Navigation msg) c2))
            (sp_script_hash (page_objects w first)) = None \<longrightarrow> returned = first"
      by (rule fallback)
  qed
qed

theorem navigation_first_page_default_witness:
  "\<exists>r w' c' msg.
     navigation no_page_script (sample_world (Some sample_ctx))
        (PageDict [(''A'', [0]), (''B'', [1])]) ''sidebar'' = (Inr (Some r), w')
   \<and> sp_default (page_objects w' 0)
   \<and> \<not> sp_default (page_objects w' 1)
   \<and> ctx w' = Some c'
   \<and> last (forward_msgs c') = Navigation msg
   \<and> map ap_is_default (nav_app_pages msg) = [True, False]
   \<and> r = 0"
  using navigation_first_page_default
    [where w = "sample_world (Some sample_ctx)" and c = sample_ctx
       and pages = "PageDict [(''A'', [0]), (''B'', [1])]" and first = 0 and rest = "[1]"
       and get_page_script = no_page_script and position = "''sidebar''"]
  by (simp add: sample_world_def sample_pages_def sample_page_def no_page_script_def)

section \<open>Properties of the element commands\<close>

text \<open>
  C7. A call to \<open>button\<close>, \<open>download_button\<close> or \<open>link_button\<close> with a \<open>type\<close> that is
  neither \<open>"primary"\<close> nor \<open>"secondary"\<close> raises \<open>StreamlitAPIException\<close> and leaves the
  world as it was: no widget has been registered and no element enqueued.
\<close>

theorem invalid_button_type_rejected:
  assumes "type \<noteq> ''primary''" and "type \<noteq> ''secondary''"
  shows "button l e w label key help on_click type disabled use_container_width
           = (Inl StreamlitAPIException, w)
       \<and> download_button l e w label data file_name mime key help on_click type disabled
           use_container_width = (Inl StreamlitAPIException, w)
       \<and> link_button l w label url help type disabled use_container_width
           = (Inl StreamlitAPIException, w)"
  using assms by (simp add: button_def download_button_def link_button_def)

theorem invalid_button_type_rejected_witness:
  "button sample_lib sample_env (sample_world (Some sample_ctx)) ''Save'' None None None
      ''tertiary'' False False = (Inl StreamlitAPIException, sample_world (Some sample_ctx))
   \<and> download_button sample_lib sample_env (sample_world (Some sample_ctx)) ''Save''
      (DataStr ''a,b'') (Some ''t.csv'') None None None None ''tertiary'' False False
        = (Inl StreamlitAPIException, sample_world (Some sample_ctx))
   \<and> link_button sample_lib (sample_world (Some sample_ctx)) ''Save'' ''https://example.com''
      None ''tertiary'' False False
        = (Inl StreamlitAPIException, sample_world (Some sample_ctx))"
  using invalid_button_type_rejected
    [of "''tertiary''" sample_lib sample_env "sample_world (Some sample_ctx)" "''Save''"
        None None None False False "DataStr ''a,b''" "Some ''t.csv''" None
        "''https://example.com''"]
  by simp

lemma page_link_proto_label:
  assumes "\<forall>i. icon = Some i \<longrightarrow> validate_icon_or_emoji l i \<noteq> None"
  shows "\<exists>proto. page_link_proto l label icon help disabled use_container_width = Some proto
           \<and> pl_label proto = (case label of None \<Rightarrow> '''' | Some s \<Rightarrow> s)"
proof (cases icon)
  case None
  then show ?thesis
    by (simp add: page_link_proto_def Let_def split: option.split)
next
  case (Some i)
  with assms obtain v where "validate_icon_or_emoji l i = Some v" by auto
  with Some show ?thesis
    by (simp add: page_link_proto_def Let_def split: option.split)
qed

lemma dg_page_link_external_no_label:
  assumes "is_url l url" and "label = None \<or> label = Some ''''"
  shows "dg_page_link l w (PageStr url) label icon help disabled use_container_width
           = (Inl StreamlitAPIException, w)"
  using assms by (simp add: dg_page_link_def split: option.split)

lemma dg_page_link_external_label:
  assumes "is_url l url" and "label = Some caption" and "caption \<noteq> ''''"
    and "\<forall>i. icon = Some i \<longrightarrow> validate_icon_or_emoji l i \<noteq> None"
  shows "\<exists>proto. dg_page_link l w (PageStr url) label icon help disabled use_container_width
                  = (Inr (), dg_enqueue ''page_link'' (PageLink proto) w)
           \<and> pl_external proto \<and> pl_page proto = url \<and> pl_label proto = caption"
proof -
  from page_link_proto_label [OF assms(4), of label "help" disabled use_container_width]
  obtain proto3 where
    p: "page_link_proto l label icon help disabled use_container_width = Some proto3"
       "pl_label proto3 = (case label of None \<Rightarrow> '''' | Some s \<Rightarrow> s)"
    by (elim exE conjE)
  have "dg_page_link l w (PageStr url) label icon help disabled use_container_width
          = (Inr (), dg_enqueue ''page_link''
                       (PageLink (proto3\<lparr>pl_page := url, pl_external := True\<rparr>)) w)"
    using assms(1-3) p(1) by (simp add: dg_page_link_def)
  moreover have "pl_external (proto3\<lparr>pl_page := url, pl_external := True\<rparr>)"
    "pl_page (proto3\<lparr>pl_page := url, pl_external := True\<rparr>) = url"
    "pl_label (proto3\<lparr>pl_page := url, pl_external := True\<rparr>) = caption"
    using p(2) assms(2) by simp_all
  ultimately show ?thesis
    by (intro exI [of _ "proto3\<lparr>pl_page := url, pl_external := True\<rparr>"] conjI)
qed


text \<open>
  C8, with the icon check taken into account. For a call to \<open>page_link\<close> whose
  \<open>page\<close> is a string that \<open>is_url\<close> accepts
  as an external URL: if \<open>label\<close> is \<open>None\<close> or empty, \<open>StreamlitAPIException\<close> is raised
  and nothing is enqueued; if \<open>label\<close> is not empty and the icon is absent or passes
  \<open>validate_icon_or_emoji\<close>, a page link with the URL as its page, the given label and
  \<open>external\<close> set is enqueued.
\<close>

theorem external_page_link:
  assumes "is_url l url"
  shows "(label = None \<or> label = Some '''' \<longrightarrow>
            page_link l w (PageStr url) label icon help disabled use_container_width
              = (Inl StreamlitAPIException, w))
       \<and> (\<forall>caption. label = Some caption \<and> caption \<noteq> ''''
              \<and> (\<forall>i. icon = Some i \<longrightarrow> validate_icon_or_emoji l i \<noteq> None) \<longrightarrow>
            (\<exists>proto. page_link l w (PageStr url) label icon help disabled use_container_width
                        = (Inr (), dg_enqueue ''page_link'' (PageLink proto) w)
                 \<and> pl_external proto \<and> pl_page proto = url \<and> pl_label proto = caption))"
proof (intro conjI impI allI)
  assume "label = None \<or> label = Some ''''"
  with assms show "page_link l w (PageStr url) label icon help disabled use_container_width
              = (Inl StreamlitAPIException, w)"
    unfolding page_link_def by (rule dg_page_link_external_no_label)
next
  fix caption
  assume a: "label = Some caption \<and> caption \<noteq> ''''
              \<and> (\<forall>i. icon = Some i \<longrightarrow> validate_icon_or_emoji l i \<noteq> None)"
  then have "label = Some caption" "caption \<noteq> ''''"
    "\<forall>i. icon = Some i \<longrightarrow> validate_icon_or_emoji l i \<noteq> None"
    by simp_all
  with assms show "\<exists>proto. page_link l w (PageStr url) label icon help disabled use_container_width
                        = (Inr (), dg_enqueue ''page_link'' (PageLink proto) w)
                 \<and> pl_external proto \<and> pl_page proto = url \<and> pl_label proto = caption"
    unfolding page_link_def by (rule dg_page_link_external_label)
qed

theorem external_page_link_witness:
  "page_link sample_lib (sample_world None) (PageStr ''https://example.com'') (Some '''')
      (Some '':material/home:'') None False None = (Inl StreamlitAPIException, sample_world None)
   \<and> (\<exists>proto. page_link sample_lib (sample_world None) (PageStr ''https://example.com'')
                  (Some ''Docs'') (Some '':material/home:'') None False None
                  = (Inr (), dg_enqueue ''page_link'' (PageLink proto) (sample_world None))
           \<and> pl_external proto \<and> pl_page proto = ''https://example.com''
           \<and> pl_label proto = ''Docs'')"
  using external_page_link [of sample_lib "''https://example.com''" "Some ''''"
          "sample_world None" "Some '':material/home:''" None False None]
        external_page_link [of sample_lib "''https://example.com''" "Some ''Docs''"
          "sample_world None" "Some '':material/home:''" None False None]
  by (simp add: sample_lib_def)

text \<open>
  An external link with a label and an icon that the icon check rejects: the check
  comes first and raises, so no page link is enqueued.
\<close>

theorem external_page_link_invalid_icon:
  "is_url sample_lib ''https://example.com''
   \<and> page_link sample_lib (sample_world None) (PageStr ''https://example.com'')
        (Some ''Docs'') (Some ''home'') None False None
       = (Inl StreamlitAPIException, sample_world None)"
  by (simp add: page_link_def dg_page_link_def page_link_proto_def sample_lib_def)

end
